theory Spec2Isabelle
  imports Main "HOL-Library.Word"
begin

section \<open>JavaScript strings\<close>

text \<open>
  A JavaScript string is a sequence of 16-bit code units. String literals of the source
  are written \<open>js ''...''\<close>; they are ASCII throughout.
\<close>

type_synonym code_unit = "16 word"
type_synonym jsstring = "code_unit list"

definition js :: "string \<Rightarrow> jsstring" where
  "js s = map (\<lambda>c. of_nat (of_char c)) s"

text \<open>
  \<open>String.prototype.trim\<close> removes, from both ends, the code units that ECMAScript
  calls WhiteSpace (TAB, VT, FF, SP, NBSP, ZWNBSP and the Unicode space separators) or
  LineTerminator (LF, CR, LS, PS).
\<close>

definition isWhiteSpace :: "code_unit \<Rightarrow> bool" where
  "isWhiteSpace u \<longleftrightarrow>
     u \<in> set [0x0009, 0x000A, 0x000B, 0x000C, 0x000D, 0x0020, 0x00A0, 0x1680,
              0x2028, 0x2029, 0x202F, 0x205F, 0x3000, 0xFEFF]
     \<or> (0x2000 \<le> u \<and> u \<le> 0x200A)"

definition trimStart :: "jsstring \<Rightarrow> jsstring" where
  "trimStart s = dropWhile isWhiteSpace s"

definition trimEnd :: "jsstring \<Rightarrow> jsstring" where
  "trimEnd s = rev (dropWhile isWhiteSpace (rev s))"

definition trim :: "jsstring \<Rightarrow> jsstring" where
  "trim s = trimEnd (trimStart s)"

text \<open>
  \<open>String.prototype.toLowerCase\<close>, as far as a comparison with an ASCII lower-case
  literal can observe it: \<open>A\<close> to \<open>Z\<close> go to \<open>a\<close> to \<open>z\<close>, and the KELVIN SIGN
  (U+212A) goes to \<open>k\<close>; no other code point has a lower-case mapping inside ASCII, so
  every other code unit is left as it is.
\<close>

definition lowerUnit :: "code_unit \<Rightarrow> code_unit" where
  "lowerUnit u = (if 0x41 \<le> u \<and> u \<le> 0x5A then u + 0x20 else if u = 0x212A then 0x6B else u)"

definition toLowerCase :: "jsstring \<Rightarrow> jsstring" where
  "toLowerCase s = map lowerUnit s"

section \<open>The document tree and the library\<close>

text \<open>
  An mdast \<open>Code\<close> node carries \<open>lang\<close> and \<open>meta\<close> (each a string, \<open>null\<close> or
  \<open>undefined\<close>) and \<open>value\<close>, the literal text between the fences.
\<close>

record code =
  code_lang :: "jsstring option"
  code_meta :: "jsstring option"
  code_value :: jsstring

text \<open>
  Every other node is \<open>Node a ns\<close>: \<open>a\<close> stands for its type and its own fields, \<open>ns\<close> for
  its children (none for a literal). The root of a document is such a node.
\<close>

datatype 'a node = Code code | Node 'a "'a node list"

text \<open>
  What a library call throws is either an \<open>Error\<close> instance, which has a \<open>message\<close>, or
  some other value.
\<close>

datatype thrown = JsError jsstring | NotAnError

text \<open>The options object given to \<open>remark-stringify\<close>.\<close>

datatype indent_mode = IndentOne | IndentTab | IndentMixed

record stringify_options =
  bullet :: jsstring
  listItemIndent :: indent_mode
  tightDefinitions :: bool
  rule_marker :: jsstring

definition stringifyOptions :: stringify_options where
  "stringifyOptions =
     \<lparr>bullet = js ''-'', listItemIndent = IndentOne, tightDefinitions = True,
      rule_marker = js ''-''\<rparr>"

text \<open>
  \<open>remark-parse\<close> and \<open>remark-stringify\<close> are npm packages, not code of this repository:
  they are parameters of the model. Either may throw.
\<close>

record 'a unified_lib =
  remarkParse :: "jsstring \<Rightarrow> thrown + 'a node"
  remarkStringify :: "stringify_options \<Rightarrow> 'a node \<Rightarrow> thrown + jsstring"

text \<open>
  \<open>visit(tree, 'code', visitor)\<close> of \<open>unist-util-visit\<close>: a preorder walk that calls the
  visitor on every node of type \<open>code\<close>, in document order. The visitor changes the node in
  place and may have an effect on a state \<open>'s\<close>.
\<close>

type_synonym 's visitor = "code \<Rightarrow> 's \<Rightarrow> code \<times> 's"

fun visit :: "'s visitor \<Rightarrow> 'a node \<Rightarrow> 's \<Rightarrow> 'a node \<times> 's"
  and visit_children :: "'s visitor \<Rightarrow> 'a node list \<Rightarrow> 's \<Rightarrow> 'a node list \<times> 's" where
  "visit f (Code c) s = (let (c', s') = f c s in (Code c', s'))"
| "visit f (Node a ns) s = (let (ns', s') = visit_children f ns s in (Node a ns', s'))"
| "visit_children f [] s = ([], s)"
| "visit_children f (n # ns) s =
     (let (n', s1) = visit f n s; (ns', s2) = visit_children f ns s1 in (n' # ns', s2))"

section \<open>normalizeMarkdown.ts\<close>

text \<open>
  \<open>baseProcessor = unified().use(remarkParse).use(remarkStringify, stringifyOptions)\<close>,
  run with \<open>processSync\<close>: parse, then stringify; no transformer in between.
\<close>

definition baseProcessor :: "'a unified_lib \<Rightarrow> jsstring \<Rightarrow> thrown + jsstring" where
  "baseProcessor L doc =
     (case remarkParse L doc of
        Inl e \<Rightarrow> Inl e
      | Inr tree \<Rightarrow> remarkStringify L stringifyOptions tree)"

text \<open>
  The guard of the visitor:
  \<^verbatim>\<open>(node.lang === 'markdown' || node.lang === 'md') && node.value\<close>.
  The empty string is the only falsy string.
\<close>

definition isFormatTarget :: "code \<Rightarrow> bool" where
  "isFormatTarget node \<longleftrightarrow>
     (code_lang node = Some (js ''markdown'') \<or> code_lang node = Some (js ''md''))
     \<and> code_value node \<noteq> []"

text \<open>
  The \<open>try\<close>/\<open>catch\<close> of the visitor. The state is the list of lines written with
  \<open>console.error\<close>.
\<close>

definition formatNested :: "'a unified_lib \<Rightarrow> code \<Rightarrow> jsstring list \<Rightarrow> code \<times> jsstring list" where
  "formatNested L node console =
     (case baseProcessor L (code_value node) of
        Inr file \<Rightarrow> (node\<lparr>code_value := trim file\<rparr>, console)
      | Inl e \<Rightarrow>
          (node,
           console @
             [js ''Failed to process nested markdown: '' @
                (case e of JsError message \<Rightarrow> message | NotAnError \<Rightarrow> js ''Unknown error'')]))"

definition visitor :: "'a unified_lib \<Rightarrow> jsstring list visitor" where
  "visitor L node console =
     (if \<not> isFormatTarget node then (node, console) else formatNested L node console)"

definition remarkRecursiveFormat ::
    "'a unified_lib \<Rightarrow> 'a node \<Rightarrow> jsstring list \<Rightarrow> 'a node \<times> jsstring list" where
  "remarkRecursiveFormat L tree console = visit (visitor L) tree console"

text \<open>
  \<open>processor = unified().use(remarkParse).use(remarkRecursiveFormat).use(remarkStringify,
  stringifyOptions)\<close>, run with \<open>process\<close>: a rejected promise is \<open>Inl\<close>.
\<close>

definition processor ::
    "'a unified_lib \<Rightarrow> jsstring \<Rightarrow> jsstring list \<Rightarrow> (thrown + jsstring) \<times> jsstring list" where
  "processor L doc console =
     (case remarkParse L doc of
        Inl e \<Rightarrow> (Inl e, console)
      | Inr tree \<Rightarrow>
          (let (tree', console') = remarkRecursiveFormat L tree console
           in (remarkStringify L stringifyOptions tree', console')))"

definition normalizeMarkdown ::
    "'a unified_lib \<Rightarrow> jsstring \<Rightarrow> jsstring list \<Rightarrow> (thrown + jsstring) \<times> jsstring list" where
  "normalizeMarkdown L markdownText console =
     (if markdownText = [] then (Inr [], console) else processor L markdownText console)"

section \<open>The other versions of the visitor\<close>

text \<open>
  Two more versions of \<open>remarkRecursiveFormat\<close> are in the repository. They share the
  \<open>try\<close>/\<open>catch\<close> and differ in the guard. The first tests
  \<^verbatim>\<open>node.lang === "markdown" || node.lang === "md"\<close> only.
\<close>

definition isMarkdown :: "code \<Rightarrow> bool" where
  "isMarkdown node \<longleftrightarrow>
     code_lang node = Some (js ''markdown'') \<or> code_lang node = Some (js ''md'')"

definition visitor_part_000 :: "'a unified_lib \<Rightarrow> jsstring list visitor" where
  "visitor_part_000 L node console =
     (if \<not> isMarkdown node then (node, console) else formatNested L node console)"

definition remarkRecursiveFormat_part_000 ::
    "'a unified_lib \<Rightarrow> 'a node \<Rightarrow> jsstring list \<Rightarrow> 'a node \<times> jsstring list" where
  "remarkRecursiveFormat_part_000 L tree console = visit (visitor_part_000 L) tree console"

text \<open>
  The second lower-cases the tag first: \<^verbatim>\<open>const lang = node.lang?.toLowerCase()\<close>,
  which is \<open>undefined\<close> for a missing tag.
\<close>

definition visitor_part_001 :: "'a unified_lib \<Rightarrow> jsstring list visitor" where
  "visitor_part_001 L node console =
     (let lang = map_option toLowerCase (code_lang node)
      in if lang = Some (js ''markdown'') \<or> lang = Some (js ''md'')
         then formatNested L node console
         else (node, console))"

definition remarkRecursiveFormat_part_001 ::
    "'a unified_lib \<Rightarrow> 'a node \<Rightarrow> jsstring list \<Rightarrow> 'a node \<times> jsstring list" where
  "remarkRecursiveFormat_part_001 L tree console = visit (visitor_part_001 L) tree console"

section \<open>Positions in a tree\<close>

text \<open>
  A node of a tree is named by its path from the root: the list of child indices.
  \<open>codes\<close> lists the \<open>code\<close> nodes in the order \<open>visit\<close> meets them, and \<open>map_code\<close>
  changes each of them by a pure function.
\<close>

fun node_at :: "'a node \<Rightarrow> nat list \<Rightarrow> 'a node option" where
  "node_at n [] = Some n"
| "node_at (Code c) (i # p) = None"
| "node_at (Node a ns) (i # p) = (if i < length ns then node_at (ns ! i) p else None)"

fun map_code :: "(code \<Rightarrow> code) \<Rightarrow> 'a node \<Rightarrow> 'a node" where
  "map_code g (Code c) = Code (g c)"
| "map_code g (Node a ns) = Node a (map (map_code g) ns)"

fun codes :: "'a node \<Rightarrow> code list" where
  "codes (Code c) = [c]"
| "codes (Node a ns) = concat (map codes ns)"

section \<open>Eligibility as the specification words it\<close>

text \<open>
  The specification calls a block eligible when its language tag, compared
  case-insensitively, equals \<open>markdown\<close> or \<open>md\<close>, and its content is non-empty. This
  predicate follows those words; \<open>isFormatTarget\<close> above follows the source.
\<close>

definition eligible_spec :: "code \<Rightarrow> bool" where
  "eligible_spec node \<longleftrightarrow>
     (case code_lang node of
        None \<Rightarrow> False
      | Some l \<Rightarrow> toLowerCase l = js ''markdown'' \<or> toLowerCase l = js ''md'')
     \<and> code_value node \<noteq> []"

section \<open>A library instance for evaluation\<close>

text \<open>
  A small executable instance of the library. The node kinds are those of the documents
  below. The renderer follows \<open>remark-stringify\<close> on them: a fenced block is opened and
  closed by a run of backticks one longer than the longest run in its content and not
  shorter than three; list items are joined by a line feed, blocks by a blank line, and a
  non-empty document ends with a line feed.
\<close>

datatype mdast = Root | Paragraph | Text jsstring | BulletList | ListItem

fun join :: "jsstring \<Rightarrow> jsstring list \<Rightarrow> jsstring" where
  "join sep [] = []"
| "join sep [x] = x"
| "join sep (x # y # ys) = x @ sep @ join sep (y # ys)"

fun longestStreak :: "code_unit \<Rightarrow> jsstring \<Rightarrow> nat \<Rightarrow> nat \<Rightarrow> nat" where
  "longestStreak u [] cur best = max cur best"
| "longestStreak u (x # xs) cur best =
     (if x = u then longestStreak u xs (Suc cur) best
      else longestStreak u xs 0 (max cur best))"

definition fenced :: "code \<Rightarrow> jsstring" where
  "fenced c =
     (let sequence = replicate (max (longestStreak 0x60 (code_value c) 0 0 + 1) 3) 0x60
      in sequence @ (case code_lang c of None \<Rightarrow> [] | Some l \<Rightarrow> l)
           @ (case code_meta c of None \<Rightarrow> [] | Some m \<Rightarrow> 0x20 # m)
           @ [0x0A] @ (if code_value c = [] then [] else code_value c @ [0x0A])
           @ sequence)"

fun test_render :: "stringify_options \<Rightarrow> mdast node \<Rightarrow> jsstring" where
  "test_render opts (Code c) = fenced c"
| "test_render opts (Node (Text s) ns) = s"
| "test_render opts (Node Paragraph ns) = concat (map (test_render opts) ns)"
| "test_render opts (Node ListItem ns) =
     bullet opts @ [0x20] @ join [0x0A, 0x0A] (map (test_render opts) ns)"
| "test_render opts (Node BulletList ns) = join [0x0A] (map (test_render opts) ns)"
| "test_render opts (Node Root ns) =
     (if ns = [] then [] else join [0x0A, 0x0A] (map (test_render opts) ns) @ [0x0A])"

definition tagged :: "string \<Rightarrow> jsstring \<Rightarrow> code" where
  "tagged l v = \<lparr>code_lang = Some (js l), code_meta = None, code_value = v\<rparr>"

definition item_a :: "mdast node" where
  "item_a =
     Node Root [Node BulletList [Node ListItem [Node Paragraph [Node (Text (js ''a'')) []]]]]"

text \<open>
  The parser is a finite table: the trees \<open>remark-parse\<close> builds for the documents used in
  the examples; the empty document is an empty root. U+3000 IDEOGRAPHIC SPACE is not
  Markdown white space, so a line that starts with it is paragraph text, whatever
  follows. Every other document is rejected with an \<open>Error\<close>.
\<close>

definition test_documents :: "(jsstring \<times> mdast node) list" where
  "test_documents =
     [([], Node Root []),
      (js ''* a'', item_a),
      (js ''+ a'', item_a),
      (js ''- a'', item_a),
      (0x3000 # js ''+ a'',
         Node Root [Node Paragraph [Node (Text (0x3000 # js ''+ a'')) []]]),
      (js ''```md\<newline>* a\<newline>```'', Node Root [Code (tagged ''md'' (js ''* a''))]),
      (js ''```markdown\<newline>'' @ 0x3000 # js ''+ a\<newline>```'',
         Node Root [Code (tagged ''markdown'' (0x3000 # js ''+ a''))]),
      (js ''```markdown\<newline>+ a\<newline>```\<newline>'',
         Node Root [Code (tagged ''markdown'' (js ''+ a''))]),
      (js ''```markdown\<newline>* [broken(\<newline>```\<newline>\<newline>```md\<newline>* a\<newline>```'',
         Node Root [Code (tagged ''markdown'' (js ''* [broken('')),
                    Code (tagged ''md'' (js ''* a''))]),
      (js ''```python\<newline>* a\<newline>```'',
         Node Root [Code (tagged ''python'' (js ''* a''))])]"

definition test_lib :: "mdast unified_lib" where
  "test_lib =
     \<lparr>remarkParse = (\<lambda>doc. case map_of test_documents doc of
                               Some tree \<Rightarrow> Inr tree
                             | None \<Rightarrow> Inl (JsError (js ''Cannot parse''))),
      remarkStringify = (\<lambda>opts tree. Inr (test_render opts tree))\<rparr>"

section \<open>Trimming\<close>

text \<open>
  Trimming the two ends can be done in either order, and what is left neither starts nor
  ends with white space.
\<close>

lemma trimEnd_Cons:
  "trimEnd (x # xs) = (if trimEnd xs = [] \<and> isWhiteSpace x then [] else x # trimEnd xs)"
  by (simp add: trimEnd_def dropWhile_append)

lemma trim_commute: "trimEnd (trimStart s) = trimStart (trimEnd s)"
  by (induction s) (simp_all add: trimEnd_Cons trimStart_def, simp_all add: trimEnd_def)

lemma trim_hd: "trim s \<noteq> [] \<Longrightarrow> \<not> isWhiteSpace (hd (trim s))"
  unfolding trim_def trim_commute unfolding trimStart_def by (rule hd_dropWhile)

lemma trim_last: "trim s \<noteq> [] \<Longrightarrow> \<not> isWhiteSpace (last (trim s))"
  unfolding trim_def trimEnd_def by (simp add: last_rev hd_dropWhile)

lemma trimEnd_hd: "trimEnd (u # rest) \<noteq> [] \<Longrightarrow> hd (trimEnd (u # rest)) = u"
  by (auto simp add: trimEnd_Cons split: if_splits)

section \<open>The walk\<close>

text \<open>
  When the visitor changes a node by a function of that node alone and only appends
  lines to the state, the walk is \<open>map_code\<close> on the tree, and it appends the lines of
  the code nodes in document order.
\<close>

lemma visit_pure:
  fixes n :: "'a node" and ns :: "'a node list"
  shows "\<forall>c s. f c s = (g c, s @ h c) \<Longrightarrow>
           visit f n s = (map_code g n, s @ concat (map h (codes n)))"
    and "\<forall>c s. f c s = (g c, s @ h c) \<Longrightarrow>
           visit_children f ns s =
             (map (map_code g) ns, s @ concat (map h (concat (map codes ns))))"
  by (induction f n s and f ns s rule: visit_visit_children.induct) simp_all

lemma node_at_map_code:
  "node_at (map_code g n) p = map_option (map_code g) (node_at n p)"
proof (induction p arbitrary: n)
  case Nil
  show ?case by simp
next
  case (Cons i p)
  show ?case by (cases n) (simp_all add: Cons.IH)
qed

lemma node_at_codes:
  "node_at n p = Some (Code c) \<Longrightarrow> c \<in> set (codes n)"
proof (induction p arbitrary: n)
  case Nil
  then show ?case by simp
next
  case (Cons i p)
  show ?case
  proof (cases n)
    case (Code d)
    with Cons.prems show ?thesis by simp
  next
    case (Node a ns)
    with Cons.prems have i: "i < length ns" and at: "node_at (ns ! i) p = Some (Code c)"
      by (simp_all split: if_splits)
    from Cons.IH [OF at] have "c \<in> set (codes (ns ! i))" .
    with i Node show ?thesis by (auto intro: nth_mem)
  qed
qed

text \<open>
  The visitor of \<open>normalizeMarkdown.ts\<close> is of that kind, so what the walk does to the
  node at a position can be read off the visitor.
\<close>

lemma visitor_split:
  "visitor L c s = (fst (visitor L c []), s @ snd (visitor L c []))"
  by (simp add: visitor_def formatNested_def split: sum.splits)

lemma remarkRecursiveFormat_eq:
  "remarkRecursiveFormat L tree console =
     (map_code (\<lambda>c. fst (visitor L c [])) tree,
      console @ concat (map (\<lambda>c. snd (visitor L c [])) (codes tree)))"
  unfolding remarkRecursiveFormat_def
  by (rule visit_pure(1)) (simp add: visitor_split [symmetric])

lemma remarkRecursiveFormat_at:
  assumes "node_at tree p = Some (Code node)"
  shows "node_at (fst (remarkRecursiveFormat L tree console)) p =
           Some (Code (fst (visitor L node [])))"
  using assms by (simp add: remarkRecursiveFormat_eq node_at_map_code)

lemma remarkRecursiveFormat_lines:
  assumes "node_at tree p = Some (Code node)"
  shows "\<exists>lines. snd (remarkRecursiveFormat L tree console) = console @ lines
           \<and> set (snd (visitor L node [])) \<subseteq> set lines"
  using node_at_codes [OF assms] by (auto simp add: remarkRecursiveFormat_eq)

lemma normalizeMarkdown_parsed:
  assumes "markdownText \<noteq> []" and "remarkParse L markdownText = Inr tree"
  shows "normalizeMarkdown L markdownText console =
           (remarkStringify L stringifyOptions (fst (remarkRecursiveFormat L tree console)),
            snd (remarkRecursiveFormat L tree console))"
  using assms by (simp add: normalizeMarkdown_def processor_def split: prod.splits)

text \<open>
  The same for the two other versions: the first rewrites a block with an exact tag
  whether or not it has content, the second a block whose lower-cased tag is
  \<open>markdown\<close> or \<open>md\<close>, also whether or not it has content.
\<close>

lemma part_000_at:
  assumes "node_at tree p = Some (Code node)"
  shows "node_at (fst (remarkRecursiveFormat_part_000 L tree console)) p =
           Some (Code (if code_lang node = Some (js ''markdown'')
                            \<or> code_lang node = Some (js ''md'')
                       then fst (formatNested L node [])
                       else node))"
proof -
  have split: "\<forall>c s. visitor_part_000 L c s =
      (fst (visitor_part_000 L c []), s @ snd (visitor_part_000 L c []))"
    by (simp add: visitor_part_000_def formatNested_def split: sum.splits)
  have "fst (remarkRecursiveFormat_part_000 L tree console) =
          map_code (\<lambda>c. fst (visitor_part_000 L c [])) tree"
    by (simp add: remarkRecursiveFormat_part_000_def visit_pure(1) [OF split])
  with assms show ?thesis
    by (simp add: node_at_map_code visitor_part_000_def isMarkdown_def)
qed

lemma part_001_at:
  assumes "node_at tree p = Some (Code node)"
  shows "node_at (fst (remarkRecursiveFormat_part_001 L tree console)) p =
           Some (Code (if map_option toLowerCase (code_lang node) = Some (js ''markdown'')
                            \<or> map_option toLowerCase (code_lang node) = Some (js ''md'')
                       then fst (formatNested L node [])
                       else node))"
proof -
  have split: "\<forall>c s. visitor_part_001 L c s =
      (fst (visitor_part_001 L c []), s @ snd (visitor_part_001 L c []))"
    by (auto simp add: visitor_part_001_def formatNested_def Let_def split: sum.splits)
  have "fst (remarkRecursiveFormat_part_001 L tree console) =
          map_code (\<lambda>c. fst (visitor_part_001 L c [])) tree"
    by (simp add: remarkRecursiveFormat_part_001_def visit_pure(1) [OF split])
  with assms show ?thesis
    by (auto simp add: node_at_map_code visitor_part_001_def Let_def)
qed

section \<open>The empty input\<close>

text \<open>
  C3. \<open>normalizeMarkdown\<close> applied to the empty string returns the empty string, whatever
  the library is: the parser is not reached, so even a parser that throws on every input
  leaves the result unchanged, and nothing is written to the console.
\<close>

theorem normalizeMarkdown_empty:
  "normalizeMarkdown L [] console = (Inr [], console)"
  by (simp add: normalizeMarkdown_def)

section \<open>A nested block that cannot be formatted\<close>

text \<open>
  C1. Let the document parse to a tree that holds, at some position, a block that
  passes the guard and on whose content the nested parse and render throws. Then the
  walk over the tree does not throw: \<open>normalizeMarkdown\<close> returns what the renderer
  makes of the transformed tree, so the only errors it can still return are the
  renderer's own. In the transformed tree the block is exactly as the parser produced it,
  every code node, before or after it, is what the visitor makes of that node alone, and
  \<open>console.error\<close> has received a line holding the message of the thrown \<open>Error\<close>, or
  \<open>Unknown error\<close> when the thrown value is not an \<open>Error\<close> and so has no message to
  show.
\<close>

theorem nested_failure_is_isolated:
  assumes "markdownText \<noteq> []"
    and "remarkParse L markdownText = Inr tree"
    and "node_at tree p = Some (Code node)"
    and "isFormatTarget node"
    and "baseProcessor L (code_value node) = Inl e"
  shows "\<exists>tree' lines.
           normalizeMarkdown L markdownText console =
             (remarkStringify L stringifyOptions tree', console @ lines)
         \<and> node_at tree' p = Some (Code node)
         \<and> (\<forall>q other. node_at tree q = Some (Code other) \<longrightarrow>
                node_at tree' q = Some (Code (fst (visitor L other []))))
         \<and> js ''Failed to process nested markdown: '' @
              (case e of JsError message \<Rightarrow> message | NotAnError \<Rightarrow> js ''Unknown error'')
             \<in> set lines"
proof -
  let ?tree' = "fst (remarkRecursiveFormat L tree console)"
  from assms(4,5) have v: "visitor L node [] =
      (node, [js ''Failed to process nested markdown: '' @
              (case e of JsError message \<Rightarrow> message | NotAnError \<Rightarrow> js ''Unknown error'')])"
    by (simp add: visitor_def formatNested_def)
  obtain lines where l: "snd (remarkRecursiveFormat L tree console) = console @ lines"
    and sub: "set (snd (visitor L node [])) \<subseteq> set lines"
    using remarkRecursiveFormat_lines [OF assms(3)] by blast
  have at: "node_at ?tree' p = Some (Code node)"
    using remarkRecursiveFormat_at [OF assms(3), of L console] v by simp
  have others: "\<forall>q other. node_at tree q = Some (Code other) \<longrightarrow>
      node_at ?tree' q = Some (Code (fst (visitor L other [])))"
    using remarkRecursiveFormat_at by blast
  have "normalizeMarkdown L markdownText console =
          (remarkStringify L stringifyOptions ?tree', console @ lines)"
    using normalizeMarkdown_parsed [OF assms(1,2), of console] l by simp
  with at others sub v show ?thesis by auto
qed

text \<open>
  The block of Scenario C, followed by an \<open>md\<close> block, on a library whose parser rejects
  the content of the first: the first block stays, the second is formatted, one line is
  written.
\<close>

theorem nested_failure_is_isolated_witness:
  "js ''```markdown\<newline>* [broken(\<newline>```\<newline>\<newline>```md\<newline>* a\<newline>```'' \<noteq> []
   \<and> remarkParse test_lib
         (js ''```markdown\<newline>* [broken(\<newline>```\<newline>\<newline>```md\<newline>* a\<newline>```'') =
       Inr (Node Root [Code (tagged ''markdown'' (js ''* [broken('')),
                       Code (tagged ''md'' (js ''* a''))])
   \<and> node_at (Node Root [Code (tagged ''markdown'' (js ''* [broken('')),
                         Code (tagged ''md'' (js ''* a''))]) [0] =
       Some (Code (tagged ''markdown'' (js ''* [broken('')))
   \<and> isFormatTarget (tagged ''markdown'' (js ''* [broken(''))
   \<and> baseProcessor test_lib (code_value (tagged ''markdown'' (js ''* [broken(''))) =
       Inl (JsError (js ''Cannot parse''))
   \<and> (\<exists>tree'.
         normalizeMarkdown test_lib
           (js ''```markdown\<newline>* [broken(\<newline>```\<newline>\<newline>```md\<newline>* a\<newline>```'') [] =
           (remarkStringify test_lib stringifyOptions tree',
            [js ''Failed to process nested markdown: Cannot parse''])
       \<and> remarkStringify test_lib stringifyOptions tree' =
           Inr (js ''```markdown\<newline>* [broken(\<newline>```\<newline>\<newline>```md\<newline>- a\<newline>```\<newline>'')
       \<and> node_at tree' [0] = Some (Code (tagged ''markdown'' (js ''* [broken('')))
       \<and> node_at tree' [1] = Some (Code (tagged ''md'' (js ''- a''))))"
proof -
  let ?doc = "js ''```markdown\<newline>* [broken(\<newline>```\<newline>\<newline>```md\<newline>* a\<newline>```''"
  let ?tree = "Node Root [Code (tagged ''markdown'' (js ''* [broken('')),
                          Code (tagged ''md'' (js ''* a''))]"
  have h1: "?doc \<noteq> []" by code_simp
  have h2: "remarkParse test_lib ?doc = Inr ?tree" by code_simp
  have h3: "node_at ?tree [0] = Some (Code (tagged ''markdown'' (js ''* [broken('')))" by simp
  have h4: "isFormatTarget (tagged ''markdown'' (js ''* [broken(''))" by code_simp
  have h5: "baseProcessor test_lib (code_value (tagged ''markdown'' (js ''* [broken(''))) =
       Inl (JsError (js ''Cannot parse''))" by code_simp
  have out: "normalizeMarkdown test_lib ?doc [] =
       (Inr (js ''```markdown\<newline>* [broken(\<newline>```\<newline>\<newline>```md\<newline>- a\<newline>```\<newline>''),
        [js ''Failed to process nested markdown: Cannot parse''])" by code_simp
  have second: "node_at ?tree [1] = Some (Code (tagged ''md'' (js ''* a'')))" by simp
  have v: "fst (visitor test_lib (tagged ''md'' (js ''* a'')) []) = tagged ''md'' (js ''- a'')"
    by code_simp
  from nested_failure_is_isolated [OF h1 h2 h3 h4 h5, of "[]"]
  obtain tree' lines where
    n: "normalizeMarkdown test_lib ?doc [] =
          (remarkStringify test_lib stringifyOptions tree', [] @ lines)"
    and a0: "node_at tree' [0] = Some (Code (tagged ''markdown'' (js ''* [broken('')))"
    and rest: "\<forall>q other. node_at ?tree q = Some (Code other) \<longrightarrow>
                 node_at tree' q = Some (Code (fst (visitor test_lib other [])))"
    by blast
  from rest second v have a1: "node_at tree' [1] = Some (Code (tagged ''md'' (js ''- a'')))"
    by simp
  from n out have r: "remarkStringify test_lib stringifyOptions tree' =
      Inr (js ''```markdown\<newline>* [broken(\<newline>```\<newline>\<newline>```md\<newline>- a\<newline>```\<newline>'')"
    and l: "lines = [js ''Failed to process nested markdown: Cannot parse'']"
    by simp_all
  from n l have n': "normalizeMarkdown test_lib ?doc [] =
      (remarkStringify test_lib stringifyOptions tree',
       [js ''Failed to process nested markdown: Cannot parse''])"
    by simp
  from n' r a0 a1 have "\<exists>tree'.
         normalizeMarkdown test_lib ?doc [] =
           (remarkStringify test_lib stringifyOptions tree',
            [js ''Failed to process nested markdown: Cannot parse''])
       \<and> remarkStringify test_lib stringifyOptions tree' =
           Inr (js ''```markdown\<newline>* [broken(\<newline>```\<newline>\<newline>```md\<newline>- a\<newline>```\<newline>'')
       \<and> node_at tree' [0] = Some (Code (tagged ''markdown'' (js ''* [broken('')))
       \<and> node_at tree' [1] = Some (Code (tagged ''md'' (js ''- a'')))"
    by blast
  with h1 h2 h3 h4 h5 show ?thesis by blast
qed

section \<open>Which blocks are rewritten\<close>

text \<open>
  The version in \<open>normalizeMarkdown.ts\<close> rewrites the code node at a position exactly
  when its tag is \<open>markdown\<close> or \<open>md\<close> as written and its content is non-empty.
\<close>

lemma exact_tag_and_content_at:
  assumes "node_at tree p = Some (Code node)"
  shows "node_at (fst (remarkRecursiveFormat L tree console)) p =
           Some (Code (if (code_lang node = Some (js ''markdown'')
                            \<or> code_lang node = Some (js ''md''))
                           \<and> code_value node \<noteq> []
                       then fst (formatNested L node [])
                       else node))"
  using remarkRecursiveFormat_at [OF assms, of L console]
  by (simp add: visitor_def isFormatTarget_def)

text \<open>
  The version that lower-cases the tag does what the specification says of every code
  node, on a library whose formatter turns the empty document into nothing but white
  space, as \<open>remark\<close> does: an empty block then comes back empty, rewritten or not.
\<close>

lemma part_001_follows_spec:
  assumes at: "node_at tree p = Some (Code node)"
    and empty: "baseProcessor L [] = Inr file"
    and blank: "trim file = []"
  shows "node_at (fst (remarkRecursiveFormat_part_001 L tree console)) p =
           Some (Code (if eligible_spec node then fst (formatNested L node []) else node))"
proof (cases "code_value node = []")
  case True
  with empty blank have "fst (formatNested L node []) = node"
    by (simp add: formatNested_def)
  with part_001_at [OF at, of L console] show ?thesis
    by (simp add: eligible_spec_def)
next
  case False
  with part_001_at [OF at, of L console] show ?thesis
    by (auto simp add: eligible_spec_def split: option.splits)
qed

text \<open>
  An empty \<open>MD\<close> block, which that version hands to the formatter, comes back empty.
\<close>

lemma part_001_follows_spec_example:
  "node_at (Node Root [Code (tagged ''MD'' [])]) [0] = Some (Code (tagged ''MD'' []))
   \<and> baseProcessor test_lib [] = Inr []
   \<and> trim [] = []
   \<and> \<not> eligible_spec (tagged ''MD'' [])
   \<and> node_at (fst (remarkRecursiveFormat_part_001 test_lib
          (Node Root [Code (tagged ''MD'' [])]) [])) [0] = Some (Code (tagged ''MD'' []))"
proof -
  have h1: "node_at (Node Root [Code (tagged ''MD'' [])]) [0] = Some (Code (tagged ''MD'' []))"
    by simp
  have h2: "baseProcessor test_lib [] = Inr []" by code_simp
  have h3: "trim [] = []" by code_simp
  have n: "\<not> eligible_spec (tagged ''MD'' [])" by code_simp
  show ?thesis
    using part_001_follows_spec [OF h1 h2 h3, of "[]"] h1 h2 h3 n by simp
qed

text \<open>
  C2. A code node is to be rewritten by the nested formatting pass if and only if its
  language tag, compared case-insensitively, is \<open>markdown\<close> or \<open>md\<close> and its content is
  non-empty. A block tagged \<open>MD\<close> with the content \<open>* a\<close> is eligible in these words,
  and the nested pass turns its content into \<open>- a\<close>. The version that lower-cases the tag
  rewrites it so; the version in \<open>normalizeMarkdown.ts\<close>, which compares the tag as
  written, leaves the block as it is.
\<close>

theorem uppercase_tag_is_skipped:
  "eligible_spec (tagged ''MD'' (js ''* a''))
   \<and> fst (formatNested test_lib (tagged ''MD'' (js ''* a'')) []) = tagged ''MD'' (js ''- a'')
   \<and> remarkRecursiveFormat_part_001 test_lib
        (Node Root [Code (tagged ''MD'' (js ''* a''))]) [] =
       (Node Root [Code (tagged ''MD'' (js ''- a''))], [])
   \<and> remarkRecursiveFormat test_lib (Node Root [Code (tagged ''MD'' (js ''* a''))]) [] =
       (Node Root [Code (tagged ''MD'' (js ''* a''))], [])
   \<and> tagged ''MD'' (js ''* a'') \<noteq> tagged ''MD'' (js ''- a'')"
  by code_simp

section \<open>The inner pass\<close>

text \<open>
  C4. The content of a block that passes the guard is parsed, and the tree that comes
  out, whatever it holds, goes to the renderer with the shared \<open>stringifyOptions\<close> and
  without a walk of its own; the trimmed result becomes the block's content, and the
  block stays as it is when the parser or the renderer throws. A Markdown-tagged block
  inside that tree is therefore rendered with the content it was parsed with: formatting
  stops at the second level.
\<close>

theorem inner_pass_is_base_formatter:
  assumes "node_at tree p = Some (Code node)"
    and "isFormatTarget node"
  shows "node_at (fst (remarkRecursiveFormat L tree console)) p =
           Some (Code
             (case remarkParse L (code_value node) of
                Inl e \<Rightarrow> node
              | Inr inner \<Rightarrow>
                  (case remarkStringify L stringifyOptions inner of
                     Inl e \<Rightarrow> node
                   | Inr file \<Rightarrow> node\<lparr>code_value := trim file\<rparr>)))"
  using remarkRecursiveFormat_at [OF assms(1), of L console] assms(2)
  by (simp add: visitor_def formatNested_def baseProcessor_def split: sum.splits)

text \<open>
  A \<open>markdown\<close> block whose content is an \<open>md\<close> block holding \<open>* a\<close>. The inner
  block passes the guard and, taken alone, would be formatted to \<open>- a\<close>; inside the
  outer block it comes back as literal text.
\<close>

theorem inner_pass_is_base_formatter_witness:
  "node_at (Node Root [Code (tagged ''markdown'' (js ''```md\<newline>* a\<newline>```''))]) [0] =
     Some (Code (tagged ''markdown'' (js ''```md\<newline>* a\<newline>```'')))
   \<and> isFormatTarget (tagged ''markdown'' (js ''```md\<newline>* a\<newline>```''))
   \<and> remarkParse test_lib (code_value (tagged ''markdown'' (js ''```md\<newline>* a\<newline>```''))) =
       Inr (Node Root [Code (tagged ''md'' (js ''* a''))])
   \<and> remarkStringify test_lib stringifyOptions (Node Root [Code (tagged ''md'' (js ''* a''))]) =
       Inr (js ''```md\<newline>* a\<newline>```\<newline>'')
   \<and> isFormatTarget (tagged ''md'' (js ''* a''))
   \<and> baseProcessor test_lib (js ''* a'') = Inr (js ''- a\<newline>'')
   \<and> node_at (fst (remarkRecursiveFormat test_lib
          (Node Root [Code (tagged ''markdown'' (js ''```md\<newline>* a\<newline>```''))]) [])) [0] =
       Some (Code (tagged ''markdown'' (js ''```md\<newline>* a\<newline>```'')))"
proof -
  have h1: "node_at (Node Root [Code (tagged ''markdown'' (js ''```md\<newline>* a\<newline>```''))]) [0] =
     Some (Code (tagged ''markdown'' (js ''```md\<newline>* a\<newline>```'')))" by simp
  have h2: "isFormatTarget (tagged ''markdown'' (js ''```md\<newline>* a\<newline>```''))" by code_simp
  have h3: "remarkParse test_lib (code_value (tagged ''markdown'' (js ''```md\<newline>* a\<newline>```''))) =
       Inr (Node Root [Code (tagged ''md'' (js ''* a''))])" by code_simp
  have h4: "remarkStringify test_lib stringifyOptions (Node Root [Code (tagged ''md'' (js ''* a''))]) =
       Inr (js ''```md\<newline>* a\<newline>```\<newline>'')" by code_simp
  have x1: "isFormatTarget (tagged ''md'' (js ''* a''))" by code_simp
  have x2: "baseProcessor test_lib (js ''* a'') = Inr (js ''- a\<newline>'')" by code_simp
  have t: "(tagged ''markdown'' (js ''```md\<newline>* a\<newline>```''))
             \<lparr>code_value := trim (js ''```md\<newline>* a\<newline>```\<newline>'')\<rparr> =
           tagged ''markdown'' (js ''```md\<newline>* a\<newline>```'')" by code_simp
  show ?thesis
    using inner_pass_is_base_formatter [OF h1 h2, of test_lib "[]"] h1 h2 h3 h4 x1 x2 t by simp
qed

section \<open>Blocks in other languages\<close>

text \<open>
  C6. A code block whose language tag is neither \<open>markdown\<close> nor \<open>md\<close>, such as
  one tagged \<open>python\<close> or \<open>js\<close>, reaches the renderer exactly as the parser produced
  it, whatever its content is; \<open>normalizeMarkdown\<close> returns the renderer's output for
  that tree.
\<close>

theorem other_languages_untouched:
  assumes "markdownText \<noteq> []"
    and "remarkParse L markdownText = Inr tree"
    and "node_at tree p = Some (Code node)"
    and "code_lang node \<noteq> Some (js ''markdown'')"
    and "code_lang node \<noteq> Some (js ''md'')"
  shows "\<exists>tree'. fst (normalizeMarkdown L markdownText console) =
                    remarkStringify L stringifyOptions tree'
               \<and> tree' = fst (remarkRecursiveFormat L tree console)
               \<and> node_at tree' p = Some (Code node)"
  using remarkRecursiveFormat_at [OF assms(3), of L console] assms(4,5)
    normalizeMarkdown_parsed [OF assms(1,2), of console]
  by (simp add: visitor_def isFormatTarget_def)

text \<open>
  A \<open>python\<close> block whose content is a Markdown list.
\<close>

theorem other_languages_untouched_witness:
  "js ''```python\<newline>* a\<newline>```'' \<noteq> []
   \<and> remarkParse test_lib (js ''```python\<newline>* a\<newline>```'') =
       Inr (Node Root [Code (tagged ''python'' (js ''* a''))])
   \<and> node_at (Node Root [Code (tagged ''python'' (js ''* a''))]) [0] =
       Some (Code (tagged ''python'' (js ''* a'')))
   \<and> code_lang (tagged ''python'' (js ''* a'')) \<noteq> Some (js ''markdown'')
   \<and> code_lang (tagged ''python'' (js ''* a'')) \<noteq> Some (js ''md'')
   \<and> fst (normalizeMarkdown test_lib (js ''```python\<newline>* a\<newline>```'') []) =
       Inr (js ''```python\<newline>* a\<newline>```\<newline>'')
   \<and> node_at (fst (remarkRecursiveFormat test_lib
          (Node Root [Code (tagged ''python'' (js ''* a''))]) [])) [0] =
       Some (Code (tagged ''python'' (js ''* a'')))"
proof -
  have h1: "js ''```python\<newline>* a\<newline>```'' \<noteq> []" by code_simp
  have h2: "remarkParse test_lib (js ''```python\<newline>* a\<newline>```'') =
       Inr (Node Root [Code (tagged ''python'' (js ''* a''))])" by code_simp
  have h3: "node_at (Node Root [Code (tagged ''python'' (js ''* a''))]) [0] =
       Some (Code (tagged ''python'' (js ''* a'')))" by simp
  have h4: "code_lang (tagged ''python'' (js ''* a'')) \<noteq> Some (js ''markdown'')" by code_simp
  have h5: "code_lang (tagged ''python'' (js ''* a'')) \<noteq> Some (js ''md'')" by code_simp
  have out: "fst (normalizeMarkdown test_lib (js ''```python\<newline>* a\<newline>```'') []) =
       Inr (js ''```python\<newline>* a\<newline>```\<newline>'')" by code_simp
  show ?thesis
    using other_languages_untouched [OF h1 h2 h3 h4 h5, of "[]"] h1 h2 h3 h4 h5 out by simp
qed

section \<open>Trimming the formatted content\<close>

text \<open>
  C10. When the content of a block that passes the guard is formatted successfully, the
  replacement is the formatter's output trimmed at both ends: it is what remains of the
  output, trimmed at its end, once the leading white space is dropped as well. It
  neither starts nor ends with white space, and when the output starts with white space
  (and is not white space only) the replacement differs from the output trimmed at its
  end only.
\<close>

theorem replacement_is_trimmed_at_both_ends:
  assumes "node_at tree p = Some (Code node)"
    and "isFormatTarget node"
    and "baseProcessor L (code_value node) = Inr file"
  shows "\<exists>v. node_at (fst (remarkRecursiveFormat L tree console)) p =
               Some (Code (node\<lparr>code_value := v\<rparr>))
           \<and> v = trimStart (trimEnd file)
           \<and> (v \<noteq> [] \<longrightarrow> \<not> isWhiteSpace (hd v) \<and> \<not> isWhiteSpace (last v))
           \<and> (v \<noteq> [] \<and> isWhiteSpace (hd file) \<longrightarrow> v \<noteq> trimEnd file)"
proof -
  have at: "node_at (fst (remarkRecursiveFormat L tree console)) p =
              Some (Code (node\<lparr>code_value := trim file\<rparr>))"
    using remarkRecursiveFormat_at [OF assms(1), of L console] assms(2,3)
    by (simp add: visitor_def formatNested_def)
  have eq: "trim file = trimStart (trimEnd file)"
    by (simp add: trim_def trim_commute)
  have ends: "trim file \<noteq> [] \<longrightarrow> \<not> isWhiteSpace (hd (trim file)) \<and> \<not> isWhiteSpace (last (trim file))"
    using trim_hd trim_last by blast
  have lead: "trim file \<noteq> [] \<and> isWhiteSpace (hd file) \<longrightarrow> trim file \<noteq> trimEnd file"
  proof (intro impI notI, elim conjE)
    assume ne: "trim file \<noteq> []" and ws: "isWhiteSpace (hd file)" and same: "trim file = trimEnd file"
    from ne eq have "trimEnd file \<noteq> []" by (auto simp add: trimStart_def)
    moreover from this obtain u rest where f: "file = u # rest"
      by (cases "file") (simp_all add: trimEnd_def)
    ultimately have "hd (trimEnd file) = u" using trimEnd_hd by blast
    with ws f same have "isWhiteSpace (hd (trim file))" by simp
    with ne trim_hd show False by blast
  qed
  show ?thesis using at eq ends lead by metis
qed

text \<open>
  A block whose formatted content starts with U+3000.
\<close>

theorem replacement_is_trimmed_at_both_ends_witness:
  "node_at (Node Root [Code (tagged ''markdown'' (0x3000 # js ''+ a''))]) [0] =
     Some (Code (tagged ''markdown'' (0x3000 # js ''+ a'')))
   \<and> isFormatTarget (tagged ''markdown'' (0x3000 # js ''+ a''))
   \<and> baseProcessor test_lib (code_value (tagged ''markdown'' (0x3000 # js ''+ a''))) =
       Inr (0x3000 # js ''+ a\<newline>'')
   \<and> node_at (fst (remarkRecursiveFormat test_lib
          (Node Root [Code (tagged ''markdown'' (0x3000 # js ''+ a''))]) [])) [0] =
       Some (Code (tagged ''markdown'' (js ''+ a'')))
   \<and> js ''+ a'' \<noteq> trimEnd (0x3000 # js ''+ a\<newline>'')"
proof -
  have h1: "node_at (Node Root [Code (tagged ''markdown'' (0x3000 # js ''+ a''))]) [0] =
     Some (Code (tagged ''markdown'' (0x3000 # js ''+ a'')))" by simp
  have h2: "isFormatTarget (tagged ''markdown'' (0x3000 # js ''+ a''))" by code_simp
  have h3: "baseProcessor test_lib (code_value (tagged ''markdown'' (0x3000 # js ''+ a''))) =
       Inr (0x3000 # js ''+ a\<newline>'')" by code_simp
  have v: "trimStart (trimEnd (0x3000 # js ''+ a\<newline>'')) = js ''+ a''" by code_simp
  have w: "isWhiteSpace (hd (0x3000 # js ''+ a\<newline>''))" by code_simp
  have n: "js ''+ a'' \<noteq> []" by code_simp
  have u: "(tagged ''markdown'' (0x3000 # js ''+ a''))\<lparr>code_value := js ''+ a''\<rparr> =
           tagged ''markdown'' (js ''+ a'')" by code_simp
  show ?thesis
    using replacement_is_trimmed_at_both_ends [OF h1 h2 h3, of "[]"] h1 h2 h3 v w n u by auto
qed

text \<open>
  C5. The comment in the source says that the line feed at the end of the formatted
  content is removed; \<open>trim\<close> removes leading white space too. On a \<open>markdown\<close>
  block with the content U+3000 \<open>+ a\<close> the formatter returns that text and a line feed;
  trimmed at its end it still starts with U+3000, but the block receives \<open>+ a\<close>.
\<close>

theorem trim_also_strips_leading_space:
  "baseProcessor test_lib (0x3000 # js ''+ a'') = Inr (0x3000 # js ''+ a\<newline>'')
   \<and> trimEnd (0x3000 # js ''+ a\<newline>'') = 0x3000 # js ''+ a''
   \<and> remarkRecursiveFormat test_lib
        (Node Root [Code (tagged ''markdown'' (0x3000 # js ''+ a''))]) [] =
       (Node Root [Code (tagged ''markdown'' (js ''+ a''))], [])
   \<and> js ''+ a'' \<noteq> 0x3000 # js ''+ a''"
  by code_simp

section \<open>Normalizing twice\<close>

text \<open>
  C7. The document with that block is normalized to a document whose block holds
  \<open>+ a\<close>, which is a list item now; normalizing the result changes it to \<open>- a\<close>.
\<close>

theorem second_pass_changes_nested_block:
  "normalizeMarkdown test_lib (js ''```markdown\<newline>'' @ 0x3000 # js ''+ a\<newline>```'') [] =
     (Inr (js ''```markdown\<newline>+ a\<newline>```\<newline>''), [])
   \<and> normalizeMarkdown test_lib (js ''```markdown\<newline>+ a\<newline>```\<newline>'') [] =
       (Inr (js ''```markdown\<newline>- a\<newline>```\<newline>''), [])
   \<and> js ''```markdown\<newline>+ a\<newline>```\<newline>'' \<noteq> js ''```markdown\<newline>- a\<newline>```\<newline>''"
  by code_simp

end
